theory Spec2Isabelle
  imports Main "HOL-Library.Sublist" "HOL-Library.Multiset"
begin

section \<open>Python values used by the scanner\<close>

text \<open>
  The scanner of \<^verbatim>\<open>heuristic_detection.py\<close> works on text: a file is the list of its lines
  (\<^verbatim>\<open>f.readlines()\<close>), a line is a \<^typ>\<open>string\<close>. Characters are the 8-bit characters of
  HOL, read as code points below 256; literals of the source outside that range (the icons
  of the report) are spelled by their UTF-8 bytes. Python integers are \<^typ>\<open>int\<close>.
  An exception is a value of \<open>exn\<close>; a computation that may raise returns \<open>exn + 'a\<close>.
\<close>

datatype exn =
    ValueError string
  | IndexError string
  | OSError string
  | NotImplementedError string
  | TypeError string

fun str_exn :: "exn \<Rightarrow> string" where
  "str_exn (ValueError m) = m"
| "str_exn (IndexError m) = m"
| "str_exn (OSError m) = m"
| "str_exn (NotImplementedError m) = m"
| "str_exn (TypeError m) = m"

definition py_index :: "'a list \<Rightarrow> int \<Rightarrow> exn + 'a" where
  \<comment> \<open>\<^verbatim>\<open>xs[i]\<close>: from the front for \<open>0 \<le> i < len\<close>, from the back for \<open>- len \<le> i < 0\<close>,
      an \<^verbatim>\<open>IndexError\<close> everywhere else\<close>
  "py_index xs i =
     (if 0 \<le> i \<and> i < int (length xs) then Inr (xs ! nat i)
      else if i < 0 \<and> - int (length xs) \<le> i then Inr (xs ! nat (int (length xs) + i))
      else Inl (IndexError ''list index out of range''))"

definition py_range :: "int \<Rightarrow> int \<Rightarrow> int list" where
  \<comment> \<open>\<^verbatim>\<open>range(a, b)\<close>\<close>
  "py_range a b = [a..b - 1]"

fun sequence :: "(exn + 'a) list \<Rightarrow> exn + 'a list" where
  \<comment> \<open>run the computations from left to right, stop at the first one that raises\<close>
  "sequence [] = Inr []"
| "sequence (c # cs) =
     (case c of
        Inl e \<Rightarrow> Inl e
      | Inr x \<Rightarrow> (case sequence cs of Inl e \<Rightarrow> Inl e | Inr xs \<Rightarrow> Inr (x # xs)))"

subsection \<open>Strings\<close>

definition isspace :: "char \<Rightarrow> bool" where
  \<comment> \<open>\<^verbatim>\<open>str.isspace\<close> on the code points below 256\<close>
  "isspace c =
     (let n = of_char c :: nat
      in (9 \<le> n \<and> n \<le> 13) \<or> (28 \<le> n \<and> n \<le> 32) \<or> n = 133 \<or> n = 160)"

definition rstrip :: "string \<Rightarrow> string" where
  "rstrip s = rev (dropWhile isspace (rev s))"

definition strip :: "string \<Rightarrow> string" where
  "strip s = dropWhile isspace (rstrip s)"

definition endswith :: "string \<Rightarrow> string \<Rightarrow> bool" where
  "endswith s suf = suffix suf s"

definition startswith :: "string \<Rightarrow> string \<Rightarrow> bool" where
  "startswith s pre = prefix pre s"

fun join :: "string \<Rightarrow> string list \<Rightarrow> string" where
  \<comment> \<open>\<^verbatim>\<open>sep.join(xs)\<close>\<close>
  "join sep [] = []"
| "join sep [x] = x"
| "join sep (x # y # ys) = x @ sep @ join sep (y # ys)"

definition digit_char :: "nat \<Rightarrow> char" where
  "digit_char d = char_of (48 + d)"

fun str_nat :: "nat \<Rightarrow> string" where
  "str_nat n = (if n < 10 then [digit_char n] else str_nat (n div 10) @ [digit_char (n mod 10)])"

declare str_nat.simps [simp del]

definition str_int :: "int \<Rightarrow> string" where
  \<comment> \<open>\<^verbatim>\<open>str(i)\<close>, also \<^verbatim>\<open>f"{i}"\<close>\<close>
  "str_int i = (if i < 0 then CHR ''-'' # str_nat (nat (- i)) else str_nat (nat i))"

definition format_4d :: "int \<Rightarrow> string" where
  \<comment> \<open>\<^verbatim>\<open>f"{i:4d}"\<close>: decimal, right-aligned in a field of at least four characters\<close>
  "format_4d i = (let s = str_int i in replicate (4 - length s) CHR '' '' @ s)"

definition os_path_join :: "string \<Rightarrow> string \<Rightarrow> string" where
  \<comment> \<open>\<^verbatim>\<open>os.path.join(a, b)\<close> of \<^verbatim>\<open>posixpath\<close>\<close>
  "os_path_join a b =
     (if startswith b ''/'' then b
      else if a = [] \<or> endswith a ''/'' then a @ b
      else a @ ''/'' @ b)"

section \<open>Rules, payloads and issues\<close>

text \<open>
  A rule yields dictionaries with the keys \<^verbatim>\<open>line_num\<close>, \<^verbatim>\<open>code\<close>, \<^verbatim>\<open>detail\<close> and
  \<^verbatim>\<open>severity\<close>. The engine reads the first two with \<^verbatim>\<open>d[...]\<close> and \<^verbatim>\<open>detail\<close> with
  \<^verbatim>\<open>d.get\<close>, so a key that is read with \<^verbatim>\<open>get\<close> is an option field: \<open>None\<close> when the
  dictionary has no such key.
\<close>

record payload =
  p_line_num :: int
  p_code :: string
  p_detail :: "string option"
  p_severity :: "string option"

text \<open>
  \<^verbatim>\<open>analyze_file\<close> is a generator. What the engine sees of it is the payloads it yields,
  in order, and whether it then raises instead of finishing. The rule classes of the source
  keep nothing between calls (their attributes are constants; the only assignment to an
  attribute in the module is \<^verbatim>\<open>self.rules\<close> of the engine) and read neither clock nor random
  numbers, so a rule is a function of the path and the lines.
\<close>

record rule =
  name :: string
  issue_type :: string
  suggestion :: string
  analyze_file :: "string \<Rightarrow> string list \<Rightarrow> payload list \<times> exn option"

text \<open>
  The dictionary built by \<^verbatim>\<open>_format_issue\<close> and read by \<^verbatim>\<open>report_issues\<close>. The report
  reads \<^verbatim>\<open>severity\<close> and \<^verbatim>\<open>context_code\<close> with \<^verbatim>\<open>get\<close>.
\<close>

record issue =
  file_path :: string
  line_num :: int
  i_issue_type :: string
  code :: string
  context_code :: "string option"
  i_suggestion :: string
  rule_name :: string
  detail :: string
  severity :: "string option"

text \<open>
  The world the scanner runs in: what reading a path gives (its lines, or the exception
  that \<^verbatim>\<open>open\<close> or \<^verbatim>\<open>readlines\<close> raises), what \<^verbatim>\<open>os.walk\<close> lists for a root (the directory paths with the
  file names of each, in the order of the listing), the lines printed so far, and what the
  scanner never reads: a clock and a source of random numbers.
\<close>

record world =
  files :: "string \<Rightarrow> exn + string list"
  os_walk :: "string \<Rightarrow> (string \<times> string list) list"
  stdout :: "string list"
  clock :: nat
  random_seed :: nat

definition print :: "string \<Rightarrow> world \<Rightarrow> world" where
  "print s w = w\<lparr>stdout := stdout w @ [s]\<rparr>"

section \<open>Scanner engine\<close>

record CodeScanner =
  rules :: "rule list"

definition icon_ok :: string where
  "icon_ok = [CHR 0xE2, CHR 0x9C, CHR 0x85]"

definition icon_error :: string where
  "icon_error = [CHR 0xE2, CHR 0x9D, CHR 0x8C]"

definition repr_str_list :: "string list \<Rightarrow> string" where
  \<comment> \<open>\<^verbatim>\<open>str\<close> of a list of class names\<close>
  "repr_str_list xs = ''['' @ join '', '' (map (\<lambda>x. [CHR 0x27] @ x @ [CHR 0x27]) xs) @ '']''"

definition CodeScanner_init :: "rule list \<Rightarrow> world \<Rightarrow> (exn + CodeScanner) \<times> world" where
  "CodeScanner_init rs w =
     (if rs = [] then (Inl (ValueError ''CodeScanner must be initialized with at least one rule.''), w)
      else (Inr \<lparr>rules = rs\<rparr>,
            print (icon_ok @ '' Scanner engine initialized, loaded '' @ str_nat (length rs)
                   @ '' rules: '' @ repr_str_list (map name rs)) w))"

subsection \<open>Context extractor\<close>

definition context_line :: "string list \<Rightarrow> int \<Rightarrow> int \<Rightarrow> exn + string" where
  \<comment> \<open>the body of the loop of \<^verbatim>\<open>_get_context_lines\<close>\<close>
  "context_line lines target_line i =
     (let line_num = i + 1;
          pre = (if line_num = target_line then ''>>> '' else ''    '')
      in case py_index lines i of
           Inl e \<Rightarrow> Inl e
         | Inr l \<Rightarrow> Inr (pre @ format_4d line_num @ '': '' @ rstrip l))"

definition context_block :: "world \<Rightarrow> string \<Rightarrow> int \<Rightarrow> int \<Rightarrow> exn + string" where
  \<comment> \<open>the \<^verbatim>\<open>try\<close> block of \<^verbatim>\<open>_get_context_lines\<close>\<close>
  "context_block w path target_line context_size =
     (case files w path of
        Inl e \<Rightarrow> Inl e
      | Inr lines \<Rightarrow>
          (let start_line = max 0 (target_line - context_size - 1);
               end_line = min (int (length lines)) (target_line + context_size)
           in case sequence (map (context_line lines target_line) (py_range start_line end_line)) of
                Inl e \<Rightarrow> Inl e
              | Inr context_lines \<Rightarrow> Inr (join [CHR 0x0A] context_lines)))"

definition get_context_lines :: "world \<Rightarrow> string \<Rightarrow> int \<Rightarrow> int \<Rightarrow> string" where
  "get_context_lines w path target_line context_size =
     (case context_block w path target_line context_size of
        Inr s \<Rightarrow> s
      | Inl e \<Rightarrow> ''Unable to get context code: '' @ str_exn e)"

subsection \<open>Formatting and the scan\<close>

definition format_issue :: "world \<Rightarrow> string \<Rightarrow> rule \<Rightarrow> payload \<Rightarrow> issue" where
  "format_issue w path r issue_details =
     (let context_lines = get_context_lines w path (p_line_num issue_details) 10
      in \<lparr>file_path = path,
          line_num = p_line_num issue_details,
          i_issue_type = issue_type r,
          code = p_code issue_details,
          context_code = Some context_lines,
          i_suggestion = suggestion r,
          rule_name = name r,
          detail = (case p_detail issue_details of None \<Rightarrow> [] | Some d \<Rightarrow> d),
          severity = None\<rparr>)"

fun run_rules :: "world \<Rightarrow> string \<Rightarrow> string list \<Rightarrow> rule list \<Rightarrow> issue list \<times> exn option" where
  \<comment> \<open>\<^verbatim>\<open>for rule in self.rules: for issue in rule.analyze_file(...): append\<close>, up to the first
      exception; the issues appended before it stay in the list\<close>
  "run_rules w path lines [] = ([], None)"
| "run_rules w path lines (r # rs) =
     (case analyze_file r path lines of
        (ps, Some e) \<Rightarrow> (map (format_issue w path r) ps, Some e)
      | (ps, None) \<Rightarrow>
          (case run_rules w path lines rs of
             (rest, err) \<Rightarrow> (map (format_issue w path r) ps @ rest, err)))"

definition scan_file :: "CodeScanner \<Rightarrow> world \<Rightarrow> string \<Rightarrow> issue list \<times> exn option" where
  \<comment> \<open>the \<^verbatim>\<open>try\<close> block of \<^verbatim>\<open>scan_repository\<close> for one file path\<close>
  "scan_file self w path =
     (case files w path of
        Inl e \<Rightarrow> ([], Some e)
      | Inr lines \<Rightarrow> run_rules w path lines (rules self))"

definition candidates :: "(string \<times> string list) list \<Rightarrow> string list" where
  \<comment> \<open>the paths the two outer loops of \<^verbatim>\<open>scan_repository\<close> reach, in order\<close>
  "candidates listing =
     concat (map (\<lambda>(root, fs).
        map (os_path_join root) (filter (\<lambda>f. endswith f ''.kt'' \<or> endswith f ''.java'') fs)) listing)"

fun scan_paths :: "CodeScanner \<Rightarrow> string list \<Rightarrow> issue list \<times> world \<Rightarrow> issue list \<times> world" where
  "scan_paths self [] (all_issues, w) = (all_issues, w)"
| "scan_paths self (path # ps) (all_issues, w) =
     (case scan_file self w path of
        (found, None) \<Rightarrow> scan_paths self ps (all_issues @ found, w)
      | (found, Some e) \<Rightarrow>
          scan_paths self ps
            (all_issues @ found,
             print (icon_error @ '' Error processing file '' @ path @ '': '' @ str_exn e) w))"

definition scan_repository :: "CodeScanner \<Rightarrow> string \<Rightarrow> world \<Rightarrow> issue list \<times> world" where
  "scan_repository self repo_path w = scan_paths self (candidates (os_walk w repo_path)) ([], w)"

section \<open>Regular expressions\<close>

text \<open>
  The rules use Python's \<^verbatim>\<open>re\<close> module. A pattern is a value of \<open>regex\<close>; \<open>matches\<close> is a
  backtracking matcher that lists, in the order \<^verbatim>\<open>re\<close> tries them, the ways the pattern can
  match at the start of the input, each with the rest of the input and the groups captured.
  \<^verbatim>\<open>search\<close> takes the first way at the leftmost position that has one. The flag says
  whether case is ignored (\<^verbatim>\<open>re.IGNORECASE\<close>).
\<close>

definition isalnum :: "char \<Rightarrow> bool" where
  "isalnum c =
     (let n = of_char c :: nat
      in (48 \<le> n \<and> n \<le> 57) \<or> (65 \<le> n \<and> n \<le> 90) \<or> (97 \<le> n \<and> n \<le> 122)
         \<or> n = 170 \<or> n = 178 \<or> n = 179 \<or> n = 181 \<or> n = 185 \<or> n = 186
         \<or> (188 \<le> n \<and> n \<le> 190) \<or> (192 \<le> n \<and> n \<le> 214)
         \<or> (216 \<le> n \<and> n \<le> 246) \<or> (248 \<le> n \<and> n \<le> 255))"

definition isword :: "char \<Rightarrow> bool" where
  "isword c = (isalnum c \<or> c = CHR ''_'')"

definition lower_char :: "char \<Rightarrow> char" where
  "lower_char c =
     (let n = of_char c :: nat
      in if (65 \<le> n \<and> n \<le> 90) \<or> (192 \<le> n \<and> n \<le> 214) \<or> (216 \<le> n \<and> n \<le> 222)
         then char_of (n + 32) else c)"

definition lower :: "string \<Rightarrow> string" where
  "lower s = map lower_char s"

datatype regex =
    Lit string
  | Dot
  | Word
  | Space
  | NoneOf string
  | Seq regex regex
  | Alt regex regex
  | Star regex
  | Plus regex
  | Opt regex
  | Group nat regex

type_synonym groups = "(nat \<times> string) list"

fun star_iter :: "(string \<Rightarrow> groups \<Rightarrow> (string \<times> groups) list) \<Rightarrow> nat \<Rightarrow> string \<Rightarrow> groups
    \<Rightarrow> (string \<times> groups) list" where
  "star_iter f 0 inp g = [(inp, g)]"
| "star_iter f (Suc n) inp g =
     concat (map (\<lambda>(rest, g'). if length rest < length inp then star_iter f n rest g' else [])
                 (f inp g))
     @ [(inp, g)]"

primrec matches :: "bool \<Rightarrow> regex \<Rightarrow> string \<Rightarrow> groups \<Rightarrow> (string \<times> groups) list" where
  "matches ic (Lit s) = (\<lambda>inp g.
     if (if ic then lower (take (length s) inp) = lower s else take (length s) inp = s)
     then [(drop (length s) inp, g)] else [])"
| "matches ic Dot = (\<lambda>inp g.
     case inp of [] \<Rightarrow> [] | c # cs \<Rightarrow> if c \<noteq> CHR 0x0A then [(cs, g)] else [])"
| "matches ic Word = (\<lambda>inp g.
     case inp of [] \<Rightarrow> [] | c # cs \<Rightarrow> if isword c then [(cs, g)] else [])"
| "matches ic Space = (\<lambda>inp g.
     case inp of [] \<Rightarrow> [] | c # cs \<Rightarrow> if isspace c then [(cs, g)] else [])"
| "matches ic (NoneOf xs) = (\<lambda>inp g.
     case inp of [] \<Rightarrow> [] | c # cs \<Rightarrow> if c \<notin> set xs then [(cs, g)] else [])"
| "matches ic (Seq a b) = (\<lambda>inp g.
     concat (map (\<lambda>(rest, g'). matches ic b rest g') (matches ic a inp g)))"
| "matches ic (Alt a b) = (\<lambda>inp g. matches ic a inp g @ matches ic b inp g)"
| "matches ic (Star a) = (\<lambda>inp g. star_iter (matches ic a) (length inp) inp g)"
| "matches ic (Plus a) = (\<lambda>inp g.
     concat (map (\<lambda>(rest, g'). star_iter (matches ic a) (length rest) rest g')
                 (matches ic a inp g)))"
| "matches ic (Opt a) = (\<lambda>inp g. matches ic a inp g @ [(inp, g)])"
| "matches ic (Group k a) = (\<lambda>inp g.
     map (\<lambda>(rest, g'). (rest, (k, take (length inp - length rest) inp) # g'))
         (matches ic a inp g))"

record match =
  m_start :: nat
  group0 :: string
  m_groups :: groups

fun search_from :: "bool \<Rightarrow> regex \<Rightarrow> nat \<Rightarrow> string \<Rightarrow> match option" where
  "search_from ic r i inp =
     (case matches ic r inp [] of
        (rest, g) # _ \<Rightarrow> Some \<lparr>m_start = i, group0 = take (length inp - length rest) inp, m_groups = g\<rparr>
      | [] \<Rightarrow> (case inp of [] \<Rightarrow> None | _ # cs \<Rightarrow> search_from ic r (Suc i) cs))"

definition re_search :: "regex \<Rightarrow> string \<Rightarrow> match option" where
  "re_search r s = search_from False r 0 s"


definition seq :: "regex list \<Rightarrow> regex" where
  "seq rs = foldr Seq rs (Lit [])"

fun contains :: "string \<Rightarrow> string \<Rightarrow> bool" where
  "contains [] sub = (sub = [])"
| "contains (c # cs) sub = (prefix sub (c # cs) \<or> contains cs sub)"

definition bool_of_match :: "match option \<Rightarrow> bool" where
  "bool_of_match m = (m \<noteq> None)"

definition dq :: string where
  "dq = [CHR 0x22]"

definition ws :: regex where
  "ws = Star Space"

definition lstrip :: "string \<Rightarrow> string" where
  "lstrip s = dropWhile isspace s"

fun split_ws_from :: "string \<Rightarrow> string \<Rightarrow> string list" where
  "split_ws_from cur [] = (if cur = [] then [] else [cur])"
| "split_ws_from cur (c # cs) =
     (if isspace c then (if cur = [] then split_ws_from [] cs else cur # split_ws_from [] cs)
      else split_ws_from (cur @ [c]) cs)"

definition split_ws :: "string \<Rightarrow> string list" where
  \<comment> \<open>\<^verbatim>\<open>s.split()\<close>: the words between runs of white space\<close>
  "split_ws s = split_ws_from [] s"

definition before_first :: "char \<Rightarrow> string \<Rightarrow> string" where
  \<comment> \<open>\<^verbatim>\<open>s.split(c)[0]\<close>\<close>
  "before_first c s = takeWhile (\<lambda>x. x \<noteq> c) s"




section \<open>The rules modelled\<close>

subsection \<open>UnsafeStartActivityRule\<close>

definition START_ACTIVITY_PATTERN :: regex where
  "START_ACTIVITY_PATTERN =
     seq [Group 1 (Alt (Lit ''startActivity'') (Lit ''startActivityForResult'')), Star Space, Lit ''('']"

definition ACTION_VIEW_PATTERN :: regex where
  "ACTION_VIEW_PATTERN = Lit ''Intent.ACTION_VIEW''"

record start_activity_state =
  try_block_stack :: "int list"
  catch_activity_not_found :: bool

definition start_activity_detail :: "string \<Rightarrow> string \<Rightarrow> string \<Rightarrow> string" where
  "start_activity_detail sev line tail =
     ''Unsafe '' @ sev @ '' risk call found: `''
     @ strip (case re_search START_ACTIVITY_PATTERN line of None \<Rightarrow> [] | Some m \<Rightarrow> group0 m)
     @ ''`. '' @ tail"

definition start_activity_step ::
  "start_activity_state \<times> payload list \<Rightarrow> nat \<times> string \<Rightarrow> start_activity_state \<times> payload list" where
  "start_activity_step acc il =
     (case acc of (st, out) \<Rightarrow> case il of (i, line) \<Rightarrow>
      let line_num = int i + 1;
          stripped_line = strip line
      in if stripped_line = [] \<or> startswith stripped_line ''//'' then (st, out)
         else
           let st1 = (if contains stripped_line ''try '' \<or> startswith stripped_line ''try {''
                         \<or> endswith stripped_line '' try''
                      then \<lparr>try_block_stack = try_block_stack st @ [line_num],
                            catch_activity_not_found = False\<rparr>
                      else st);
               st2 = (if contains stripped_line ''catch''
                         \<and> contains stripped_line ''ActivityNotFoundException''
                      then st1\<lparr>catch_activity_not_found := True\<rparr> else st1);
               st3 = (if startswith stripped_line ''}'' then
                        (if try_block_stack st2 \<noteq> [] then
                           (let popped = butlast (try_block_stack st2)
                            in \<lparr>try_block_stack = popped,
                                catch_activity_not_found =
                                  (if popped = [] then False else catch_activity_not_found st2)\<rparr>)
                         else st2)
                      else st2)
           in if bool_of_match (re_search START_ACTIVITY_PATTERN line) then
                (let is_action_view = bool_of_match (re_search ACTION_VIEW_PATTERN line)
                 in if try_block_stack st3 = [] then
                      (let sev = (if is_action_view then ''HIGH'' else ''MEDIUM'')
                       in (st3, out @ [\<lparr>p_line_num = line_num, p_code = strip line,
                             p_detail = Some (start_activity_detail sev line
                                               ''No exception handling detected.''),
                             p_severity = Some sev\<rparr>]))
                    else if try_block_stack st3 \<noteq> [] \<and> \<not> catch_activity_not_found st3 then
                      (let sev = (if is_action_view then ''MEDIUM'' else ''LOW'')
                       in (st3, out @ [\<lparr>p_line_num = line_num, p_code = strip line,
                             p_detail = Some (start_activity_detail sev line
                               ''Try block exists but no ActivityNotFoundException handling detected.''),
                             p_severity = Some sev\<rparr>]))
                    else (st3, out))
              else (st3, out))"

definition UnsafeStartActivityRule_analyze_file :: "string \<Rightarrow> string list \<Rightarrow> payload list \<times> exn option" where
  "UnsafeStartActivityRule_analyze_file path lines =
     (snd (foldl start_activity_step
             (\<lparr>try_block_stack = [], catch_activity_not_found = False\<rparr>, [])
             (enumerate 0 lines)),
      None)"

definition UnsafeStartActivityRule :: rule where
  "UnsafeStartActivityRule =
     \<lparr>name = ''UnsafeStartActivityRule'',
      issue_type = ''Unsafe startActivity Call Without Exception Handling'',
      suggestion = ''The startActivity() call can throw an ActivityNotFoundException if no app can handle the Intent (e.g., no browser for ACTION_VIEW). Wrap it in a try-catch block with ActivityNotFoundException handling.'',
      analyze_file = UnsafeStartActivityRule_analyze_file\<rparr>"

subsection \<open>StrictPeertubeChannelIdParsingRule\<close>

definition MISSING_URL_SCOPED_PATTERN :: regex where
  "MISSING_URL_SCOPED_PATTERN = Lit ''ID_URL_PATTERN''"

definition FIXID_SIGNATURE_PATTERN :: regex where
  "FIXID_SIGNATURE_PATTERN =
     seq [Lit ''fixId'', ws, Lit ''('', ws, Opt (Group 1 (Seq (Lit ''@Nonnull'') ws)),
          Lit ''final'', ws, Lit ''String'', Plus Space, Lit ''id'', ws, Lit '')'']"

definition CLEAN_LEADING_SLASH_PATTERN :: regex where
  "CLEAN_LEADING_SLASH_PATTERN =
     Alt (seq [Lit ''startsWith'', ws, Lit ''('', ws, Lit (dq @ ''/'' @ dq), ws, Lit '')'', ws,
               Lit ''?'', ws, Lit ''id.substring(1)'', ws, Lit '':'', ws, Lit ''id''])
         (seq [Lit ''cleanedId'', ws, Lit ''='', ws, Lit (''id.startsWith('' @ dq @ ''/'' @ dq @ '')''),
               ws, Lit ''?'', ws, Lit ''id.substring(1)'', ws, Lit '':'', ws, Lit ''id''])"

definition EXPAND_PREFIX_A_PATTERN :: regex where
  "EXPAND_PREFIX_A_PATTERN =
     seq [Lit ''startsWith'', ws, Lit ''('', ws, Lit (dq @ ''a/'' @ dq), ws, Lit '')'',
          Star Dot, Lit ''accounts'']"

definition EXPAND_PREFIX_C_PATTERN :: regex where
  "EXPAND_PREFIX_C_PATTERN =
     seq [Lit ''startsWith'', ws, Lit ''('', ws, Lit (dq @ ''c/'' @ dq), ws, Lit '')'',
          Star Dot, Lit ''video-channels'']"

definition StrictPeertubeChannelIdParsingRule_analyze_file ::
  "string \<Rightarrow> string list \<Rightarrow> payload list \<times> exn option" where
  "StrictPeertubeChannelIdParsingRule_analyze_file path lines =
     (if \<not> endswith path ''.java'' then ([], None)
      else if \<not> contains (lower path) ''peertube'' then ([], None)
      else
        let content = join [CHR 0x0A] lines;
            has_id_url_pattern = bool_of_match (re_search MISSING_URL_SCOPED_PATTERN content);
            has_fixid_signature = bool_of_match (re_search FIXID_SIGNATURE_PATTERN content);
            has_clean_leading = bool_of_match (re_search CLEAN_LEADING_SLASH_PATTERN content);
            has_expand_a = bool_of_match (re_search EXPAND_PREFIX_A_PATTERN content);
            has_expand_c = bool_of_match (re_search EXPAND_PREFIX_C_PATTERN content)
        in if \<not> has_id_url_pattern
              \<or> \<not> (has_fixid_signature \<and> has_clean_leading \<and> has_expand_a \<and> has_expand_c)
           then
             (let line_num = 1;
                  detail_bits =
                    (if \<not> has_id_url_pattern
                     then [''Define ID_URL_PATTERN='' @ [CHR 0x27] @ ''/((accounts|a)|(video-channels|c))/([^/?&#]*)'' @ [CHR 0x27]]
                     else [])
                    @ (if \<not> has_clean_leading
                       then [''Remove leading '' @ [CHR 0x27] @ ''/'' @ [CHR 0x27] @ '' in fixId''] else [])
                    @ (if \<not> has_expand_a
                       then [''Expand '' @ [CHR 0x27] @ ''a/'' @ [CHR 0x27] @ '' -> '' @ [CHR 0x27]
                             @ ''accounts/'' @ [CHR 0x27] @ '' in fixId''] else [])
                    @ (if \<not> has_expand_c
                       then [''Expand '' @ [CHR 0x27] @ ''c/'' @ [CHR 0x27] @ '' -> '' @ [CHR 0x27]
                             @ ''video-channels/'' @ [CHR 0x27] @ '' in fixId''] else [])
              in ([\<lparr>p_line_num = line_num,
                     p_code = ''PeerTube link handler patterns'',
                     p_detail = Some (if join ''; '' detail_bits \<noteq> [] then join ''; '' detail_bits
                                      else ''PeerTube channel ID parsing likely incomplete.''),
                     p_severity = Some ''MEDIUM''\<rparr>], None))
           else ([], None))"

definition StrictPeertubeChannelIdParsingRule :: rule where
  "StrictPeertubeChannelIdParsingRule =
     \<lparr>name = ''StrictPeertubeChannelIdParsingRule'',
      issue_type = ''PeerTube channel ID parsing too permissive/incorrect'',
      suggestion = ''Use '' @ [CHR 0x27] @ ''/((accounts|a)|(video-channels|c))/([^/?&#]*)'' @ [CHR 0x27]
        @ '' and normalize IDs by removing leading '' @ [CHR 0x27] @ ''/'' @ [CHR 0x27]
        @ '' and expanding '' @ [CHR 0x27] @ ''a/'' @ [CHR 0x27] @ ''/'' @ [CHR 0x27] @ ''c/'' @ [CHR 0x27] @ ''.'',
      analyze_file = StrictPeertubeChannelIdParsingRule_analyze_file\<rparr>"

subsection \<open>StrictFailedRequirementExceptionRule\<close>

definition FAILED_REQUIREMENT_OPERATIONS :: "string list" where
  "FAILED_REQUIREMENT_OPERATIONS =
     [''createLayout'', ''layoutChildren'', ''measureChildren'', ''onLayout'', ''onMeasure'',
      ''createRecipientLayout'', ''layoutRecipients'', ''drawRecipients'',
      ''setScale'', ''setRotation'', ''setTranslation'', ''setAlpha'',
      ''addView'', ''removeView'', ''removeViewAt'']"

definition SIZE_COUNT_CHECK_PATTERN :: regex where
  "SIZE_COUNT_CHECK_PATTERN =
     seq [Group 1 (Plus Word), ws,
          Group 2 (Alt (seq [Lit ''=='', ws, Lit ''0''])
                  (Alt (seq [Lit ''>'', ws, Lit ''0''])
                  (Alt (seq [Lit ''!='', ws, Lit ''0''])
                  (Alt (Lit ''.isEmpty()'')
                  (Alt (Lit ''.isNotEmpty()'')
                  (Alt (seq [Lit ''.size'', ws, Lit ''=='', ws, Lit ''0''])
                       (seq [Lit ''.count'', ws, Lit ''=='', ws, Lit ''0''])))))))]"

definition NULL_CHECK_PATTERN :: regex where
  "NULL_CHECK_PATTERN =
     seq [Group 1 (Plus Word), ws,
          Group 2 (Alt (seq [Lit ''=='', ws, Lit ''null'']) (seq [Lit ''!='', ws, Lit ''null'']))]"

definition EARLY_RETURN_PATTERN :: regex where
  "EARLY_RETURN_PATTERN = seq [Lit ''return'', ws, Lit '';'']"

record failed_requirement_state =
  in_method :: bool
  method_start :: nat
  method_name :: string
  has_validation :: bool
  has_early_return :: bool

definition failed_requirement_step ::
  "string list \<Rightarrow> failed_requirement_state \<Rightarrow> nat \<times> string
     \<Rightarrow> exn + failed_requirement_state \<times> payload list" where
  "failed_requirement_step lines st il =
     (case il of (i, line) \<Rightarrow>
      let line_num = int i + 1;
          stripped_line = strip line
      in if stripped_line = [] \<or> startswith stripped_line ''//'' then Inr (st, [])
         else if contains stripped_line ''fun '' \<or> contains stripped_line ''void ''
                 \<or> contains stripped_line ''override fun '' then
           (case py_index (split_ws (before_first CHR ''('' stripped_line)) (- 1) of
              Inl e \<Rightarrow> Inl e
            | Inr word \<Rightarrow>
                Inr (\<lparr>in_method = True, method_start = i, method_name = word,
                      has_validation = False, has_early_return = False\<rparr>, []))
         else if in_method st \<and> stripped_line = ''}'' \<and> method_start st < i
                 \<and> 0 < i \<and> 0 < length (strip (lines ! (i - 1)))
                 \<and> int (length line) - int (length (lstrip line))
                     \<le> int (length (lines ! (i - 1))) - int (length (lstrip (lines ! (i - 1))))
         then Inr (st\<lparr>in_method := False\<rparr>, [])
         else if in_method st then
           (case find (\<lambda>operation. contains stripped_line operation) FAILED_REQUIREMENT_OPERATIONS of
              None \<Rightarrow> Inr (st, [])
            | Some operation \<Rightarrow>
                let method_lines = take (i + 1 - method_start st) (drop (method_start st) lines);
                    method_text = join [CHR 0x0A] method_lines;
                    validated = (bool_of_match (re_search SIZE_COUNT_CHECK_PATTERN method_text)
                                 \<or> bool_of_match (re_search NULL_CHECK_PATTERN method_text));
                    early = bool_of_match (re_search EARLY_RETURN_PATTERN method_text);
                    st' = st\<lparr>has_validation := validated, has_early_return := early\<rparr>
                in if \<not> validated then
                     Inr (st', [\<lparr>p_line_num = line_num, p_code = stripped_line,
                        p_detail = Some (''Operation '' @ [CHR 0x27] @ operation @ [CHR 0x27]
                          @ '' without validation in '' @ method_name st
                          @ ''() can cause IllegalArgumentException: Failed requirement. Add precondition checks.''),
                        p_severity = Some ''HIGH''\<rparr>])
                   else if validated \<and> \<not> early then
                     Inr (st', [\<lparr>p_line_num = line_num, p_code = stripped_line,
                        p_detail = Some (''Operation '' @ [CHR 0x27] @ operation @ [CHR 0x27]
                          @ '' in '' @ method_name st
                          @ ''() with validation but no early return. Consider adding early return when preconditions are not met.''),
                        p_severity = Some ''MEDIUM''\<rparr>])
                   else Inr (st', []))
         else Inr (st, []))"

fun failed_requirement_loop ::
  "string list \<Rightarrow> failed_requirement_state \<Rightarrow> (nat \<times> string) list \<Rightarrow> payload list \<times> exn option" where
  "failed_requirement_loop lines st [] = ([], None)"
| "failed_requirement_loop lines st (il # rest) =
     (case failed_requirement_step lines st il of
        Inl e \<Rightarrow> ([], Some e)
      | Inr (st', ps) \<Rightarrow>
          (case failed_requirement_loop lines st' rest of (qs, err) \<Rightarrow> (ps @ qs, err)))"

definition StrictFailedRequirementExceptionRule_analyze_file ::
  "string \<Rightarrow> string list \<Rightarrow> payload list \<times> exn option" where
  "StrictFailedRequirementExceptionRule_analyze_file path lines =
     (if \<not> (endswith path ''.kt'' \<or> endswith path ''.java'') then ([], None)
      else failed_requirement_loop lines
             \<lparr>in_method = False, method_start = 0, method_name = [],
              has_validation = False, has_early_return = False\<rparr>
             (enumerate 0 lines))"

definition StrictFailedRequirementExceptionRule :: rule where
  "StrictFailedRequirementExceptionRule =
     \<lparr>name = ''StrictFailedRequirementExceptionRule'',
      issue_type = ''Potential IllegalArgumentException: Failed Requirement'',
      suggestion = ''Add precondition checks before performing operations that can throw IllegalArgumentException: Failed requirement. Validate inputs and state before calling methods that have strict requirements.'',
      analyze_file = StrictFailedRequirementExceptionRule_analyze_file\<rparr>"

subsection \<open>Method boundaries\<close>





subsection \<open>UnsafeArrayIndexAccessRule\<close>











subsection \<open>UnsafeNullableObjectAccessRule\<close>













section \<open>Reporter\<close>

definition icon_high :: string where
  "icon_high = [CHR 0xF0, CHR 0x9F, CHR 0x94, CHR 0xB4]"

definition icon_medium :: string where
  "icon_medium = [CHR 0xF0, CHR 0x9F, CHR 0x9F, CHR 0xA1]"

definition icon_low :: string where
  "icon_low = [CHR 0xF0, CHR 0x9F, CHR 0x9F, CHR 0xA2]"

definition icon_unknown :: string where
  "icon_unknown = [CHR 0xE2, CHR 0x9A, CHR 0xAA]"

definition icon_party :: string where
  "icon_party = [CHR 0xF0, CHR 0x9F, CHR 0x8E, CHR 0x89]"

definition icon_alarm :: string where
  "icon_alarm = [CHR 0xF0, CHR 0x9F, CHR 0x9A, CHR 0xA8]"

definition icon_page :: string where
  "icon_page = [CHR 0xF0, CHR 0x9F, CHR 0x93, CHR 0x84]"

text \<open>
  \<^verbatim>\<open>issues_by_file\<close> is a dictionary filled in the order of the issues; Python iterates a
  dictionary in insertion order, so it is an association list with one entry per key.
\<close>

fun dict_append :: "(string \<times> issue list) list \<Rightarrow> issue \<Rightarrow> (string \<times> issue list) list" where
  "dict_append [] i = [(file_path i, [i])]"
| "dict_append ((k, v) # d) i =
     (if k = file_path i then (k, v @ [i]) # d else (k, v) # dict_append d i)"

definition issues_by_file :: "issue list \<Rightarrow> (string \<times> issue list) list" where
  "issues_by_file issues = foldl dict_append [] issues"

definition severity_icon :: "string \<Rightarrow> string" where
  "severity_icon sev =
     (if sev = ''HIGH'' then icon_high
      else if sev = ''MEDIUM'' then icon_medium
      else if sev = ''LOW'' then icon_low
      else icon_unknown)"

definition issue_lines :: "issue \<Rightarrow> string list" where
  \<comment> \<open>what the inner loop of \<^verbatim>\<open>report_issues\<close> prints for one issue, one string per \<^verbatim>\<open>print\<close>\<close>
  "issue_lines i =
     (let sev = (case severity i of None \<Rightarrow> ''UNKNOWN'' | Some s \<Rightarrow> s)
      in [''  - '' @ severity_icon sev @ '' [L'' @ str_int (line_num i) @ ''] ''
            @ i_issue_type i @ '' ('' @ sev @ '')'',
          ''    Code: `'' @ code i @ ''`'',
          ''    Context:'',
          ''    '' @ (case context_code i of None \<Rightarrow> ''No context information'' | Some c \<Rightarrow> c),
          ''    Suggestion: '' @ i_suggestion i]
         @ (if detail i \<noteq> [] then [''    Detail: '' @ detail i] else [])
         @ [replicate 40 CHR ''-''])"

definition file_lines :: "string \<times> issue list \<Rightarrow> string list" where
  \<comment> \<open>the body of the loop over \<^verbatim>\<open>issues_by_file.items()\<close>; \<^verbatim>\<open>sorted\<close> is stable, as
      \<^const>\<open>sort_key\<close> is\<close>
  "file_lines kv =
     (case kv of (path, file_issues) \<Rightarrow>
        [[CHR 0x0A] @ replicate 80 CHR ''='',
         icon_page @ '' File: '' @ path,
         replicate 80 CHR ''='']
        @ concat (map issue_lines (sort_key line_num file_issues)))"

definition report_lines :: "issue list \<Rightarrow> string list" where
  "report_lines issues =
     (if issues = [] then [[CHR 0x0A] @ icon_party @ '' Scan completed! No issues found.'']
      else ([CHR 0x0A] @ icon_alarm @ '' Scan completed! Found '' @ str_nat (length issues)
              @ '' potential issues:'')
           # concat (map file_lines (issues_by_file issues)))"

definition report_issues :: "issue list \<Rightarrow> world \<Rightarrow> world" where
  "report_issues issues w = foldl (\<lambda>w s. print s w) w (report_lines issues)"

section \<open>Reference renderings and example inputs\<close>

definition numbered_line :: "string list \<Rightarrow> int \<Rightarrow> int \<Rightarrow> string" where
  \<comment> \<open>line \<open>k\<close> of the file, counted from 1, as the context block shows it: the marker when
      it is the target line, the line number, the text without trailing white space\<close>
  "numbered_line lines target_line k =
     (if k = target_line then ''>>> '' else ''    '') @ format_4d k @ '': ''
       @ rstrip (lines ! nat (k - 1))"



definition demo_lines :: "string list" where
  "demo_lines = [''class A {'', ''  val x = 1'', ''}'']"

definition demo_world :: world where
  "demo_world =
     \<lparr>files = (\<lambda>p. if p = ''src/A.kt'' then Inr demo_lines
                  else Inl (OSError (''[Errno 2] No such file or directory: '' @ [CHR 0x27] @ p @ [CHR 0x27]))),
      os_walk = (\<lambda>root. if root = ''src'' then [(''src'', [''A.kt'', ''B.java'', ''notes.txt''])] else []),
      stdout = [],
      clock = 0,
      random_seed = 0\<rparr>"



text \<open>
  A small tree: a file that cannot be read, a file with an unguarded \<^verbatim>\<open>startActivity\<close>, a
  file whose second line starts with a parenthesis and names \<^verbatim>\<open>fun\<close>, an empty file, and a
  file that is no source file.
\<close>

definition main_java :: "string list" where
  "main_java = [''startActivity(new Intent(Intent.ACTION_VIEW, uri));'']"

definition peertube_links_java :: "string list" where
  "peertube_links_java = [''String s = prefix +'', ''    ('' @ dq @ ''fun '' @ dq @ '' + name);'']"

definition locked_error :: exn where
  "locked_error = OSError (''[Errno 13] Permission denied: '' @ [CHR 0x27] @ ''src/Locked.java'' @ [CHR 0x27])"

definition scan_world :: world where
  "scan_world =
     \<lparr>files = (\<lambda>p. if p = ''src/Main.java'' then Inr main_java
                  else if p = ''src/PeertubeLinks.java'' then Inr peertube_links_java
                  else if p = ''src/peertube/Empty.java'' then Inr []
                  else if p = ''src/Locked.java'' then Inl locked_error
                  else Inl (OSError (''[Errno 2] No such file or directory: '' @ [CHR 0x27] @ p @ [CHR 0x27]))),
      os_walk = (\<lambda>root. if root = ''src''
                  then [(''src'', [''Locked.java'', ''Main.java'', ''PeertubeLinks.java'', ''README.md'']),
                        (''src/peertube'', [''Empty.java''])]
                  else []),
      stdout = [],
      clock = 0,
      random_seed = 0\<rparr>"



section \<open>Construction of the engine\<close>

text \<open>
  C9. Constructing the engine with an empty rule list raises (a \<^verbatim>\<open>ValueError\<close>) without
  touching the world, so before anything is scanned or printed; constructing it with any
  other rule list returns an engine that holds exactly these rules.
\<close>

theorem CodeScanner_init_empty_or_ok:
  "CodeScanner_init [] w =
     (Inl (ValueError ''CodeScanner must be initialized with at least one rule.''), w)
   \<and> (\<exists>w'. CodeScanner_init (r # rs) w = (Inr \<lparr>rules = r # rs\<rparr>, w'))"
  by (simp add: CodeScanner_init_def)


section \<open>Context extractor\<close>

lemma sequence_map_Inr:
  "(\<And>x. x \<in> set xs \<Longrightarrow> f x = Inr (g x)) \<Longrightarrow> sequence (map f xs) = Inr (map g xs)"
  by (induction xs) auto

lemma map_upto_shift: "map (\<lambda>i. h (i + 1)) [a..b - 1] = map h [a + 1..b]"
proof -
  have "[a + 1..b] = map (\<lambda>i. i + 1) [a..b - 1]"
    by (rule nth_equalityI) auto
  then show ?thesis by (simp add: comp_def)
qed

lemma context_line_in_range:
  assumes "0 \<le> i" "i < int (length lines)"
  shows "context_line lines t i = Inr (numbered_line lines t (i + 1))"
  using assms by (simp add: context_line_def py_index_def numbered_line_def Let_def)

text \<open>
  For any target and any window size the loop runs over indices of the list only, so no
  \<^verbatim>\<open>IndexError\<close> arises, and the block is the lines numbered from \<open>max 1 (t - c)\<close> to
  \<open>min n (t + c)\<close>.
\<close>

lemma context_block_window:
  assumes "files w path = Inr lines"
  shows "context_block w path t c =
     Inr (join [CHR 0x0A] (map (numbered_line lines t)
        [max 1 (t - c) .. min (int (length lines)) (t + c)]))"
proof -
  let ?a = "max 0 (t - c - 1)" and ?b = "min (int (length lines)) (t + c)"
  have "sequence (map (context_line lines t) (py_range ?a ?b))
        = Inr (map (\<lambda>i. numbered_line lines t (i + 1)) (py_range ?a ?b))"
    by (rule sequence_map_Inr) (auto simp: py_range_def intro!: context_line_in_range)
  moreover have "map (\<lambda>i. numbered_line lines t (i + 1)) (py_range ?a ?b)
        = map (numbered_line lines t) [?a + 1 .. ?b]"
    unfolding py_range_def by (rule map_upto_shift)
  moreover have "?a + 1 = max 1 (t - c)" by simp
  ultimately show ?thesis using assms by (simp add: context_block_def Let_def)
qed

text \<open>
  C7. For a readable file of \<open>n\<close> lines and a target line \<open>t\<close> with \<open>1 \<le> t \<le> n\<close>, the
  context block with the window of 10 is the lines numbered \<open>max 1 (t - 10)\<close> to
  \<open>min n (t + 10)\<close>, in order and joined by newlines, each with its 1-based number, with
  the marker on line \<open>t\<close> and on no other line; line \<open>t\<close> is among them, and the block is
  computed without an access out of range (the \<^verbatim>\<open>try\<close> block returns, it does not raise).
\<close>

theorem get_context_lines_window:
  assumes "files w path = Inr lines" and "1 \<le> t" and "t \<le> int (length lines)"
  shows "context_block w path t 10 =
           Inr (join [CHR 0x0A] (map (numbered_line lines t)
                  [max 1 (t - 10) .. min (int (length lines)) (t + 10)]))
       \<and> get_context_lines w path t 10 =
           join [CHR 0x0A] (map (numbered_line lines t)
                  [max 1 (t - 10) .. min (int (length lines)) (t + 10)])
       \<and> t \<in> set [max 1 (t - 10) .. min (int (length lines)) (t + 10)]"
  using assms context_block_window[OF assms(1), of t 10]
  by (simp add: get_context_lines_def)

theorem get_context_lines_window_witness:
  "files demo_world ''src/A.kt'' = Inr demo_lines \<and> (1::int) \<le> 2 \<and> 2 \<le> int (length demo_lines)
   \<and> get_context_lines demo_world ''src/A.kt'' 2 10 =
        join [CHR 0x0A] (map (numbered_line demo_lines 2) [1, 2, 3])"
proof -
  have f: "files demo_world ''src/A.kt'' = Inr demo_lines"
    by (simp add: demo_world_def)
  have n: "int (length demo_lines) = 3"
    by (simp add: demo_lines_def)
  have u: "[1 .. (3::int)] = [1, 2, 3]"
    by (simp add: upto.simps)
  from get_context_lines_window[OF f, of 2] n u show ?thesis
    by (simp add: f)
qed

text \<open>
  C10. For a readable file of \<open>n\<close> lines and any integer target \<open>t\<close>, below 1 and
  above \<open>n\<close> included, the context extractor returns without an access out of range: the
  block is the lines numbered \<open>max 1 (t - 10)\<close> to \<open>min n (t + 10)\<close>, all of which lie
  between 1 and \<open>n\<close>. When the target is wholly outside the file (more than 10 lines
  past the end, 10 or more lines before line 0, or any target on an empty file) the block is
  the empty string.
\<close>

theorem get_context_lines_total:
  assumes "files w path = Inr lines"
  shows "context_block w path t 10 =
           Inr (join [CHR 0x0A] (map (numbered_line lines t)
                  [max 1 (t - 10) .. min (int (length lines)) (t + 10)]))
       \<and> get_context_lines w path t 10 =
           join [CHR 0x0A] (map (numbered_line lines t)
                  [max 1 (t - 10) .. min (int (length lines)) (t + 10)])
       \<and> (\<forall>k \<in> set [max 1 (t - 10) .. min (int (length lines)) (t + 10)].
             1 \<le> k \<and> k \<le> int (length lines))
       \<and> (int (length lines) + 10 < t \<or> t \<le> - 10 \<or> lines = []
             \<longrightarrow> get_context_lines w path t 10 = [])"
proof -
  let ?ks = "[max 1 (t - 10) .. min (int (length lines)) (t + 10)]"
  have b: "context_block w path t 10 = Inr (join [CHR 0x0A] (map (numbered_line lines t) ?ks))"
    by (rule context_block_window[OF assms])
  then have g: "get_context_lines w path t 10 = join [CHR 0x0A] (map (numbered_line lines t) ?ks)"
    by (simp add: get_context_lines_def)
  have r: "\<forall>k \<in> set ?ks. 1 \<le> k \<and> k \<le> int (length lines)"
    by auto
  have e: "int (length lines) + 10 < t \<or> t \<le> - 10 \<or> lines = [] \<longrightarrow> ?ks = []"
    by auto
  from g e have "int (length lines) + 10 < t \<or> t \<le> - 10 \<or> lines = []
      \<longrightarrow> get_context_lines w path t 10 = []"
    by auto
  with b g r show ?thesis by blast
qed

theorem get_context_lines_total_witness:
  "files demo_world ''src/A.kt'' = Inr demo_lines
   \<and> get_context_lines demo_world ''src/A.kt'' 14 10 = []
   \<and> get_context_lines demo_world ''src/A.kt'' (- 20) 10 = []
   \<and> get_context_lines demo_world ''src/A.kt'' (- 9) 10
        = join [CHR 0x0A] (map (numbered_line demo_lines (- 9)) [1])"
proof -
  have f: "files demo_world ''src/A.kt'' = Inr demo_lines"
    by (simp add: demo_world_def)
  have n: "int (length demo_lines) = 3"
    by (simp add: demo_lines_def)
  have u: "[1 .. (1::int)] = [1]"
    by (simp add: upto.simps)
  from get_context_lines_total[OF f, of 14] get_context_lines_total[OF f, of "- 20"]
       get_context_lines_total[OF f, of "- 9"] n u
  show ?thesis
    by (simp add: f)
qed

section \<open>Reporter\<close>













section \<open>The scan\<close>

lemma context_block_files:
  assumes "files w' = files w"
  shows "context_block w' p t c = context_block w p t c"
  using assms by (simp add: context_block_def)

lemma format_issue_files:
  assumes "files w' = files w"
  shows "format_issue w' p r d = format_issue w p r d"
  by (simp add: format_issue_def get_context_lines_def context_block_files[OF assms])

lemma run_rules_files:
  assumes "files w' = files w"
  shows "run_rules w' p ls rs = run_rules w p ls rs"
  by (induction rs) (simp_all add: format_issue_files[OF assms] split: prod.splits option.splits)

lemma scan_file_files:
  assumes "files w' = files w"
  shows "scan_file self w' p = scan_file self w p"
  by (simp add: scan_file_def run_rules_files[OF assms] assms split: sum.splits)

lemma files_print: "files (print s w) = files w"
  by (simp add: print_def)


lemma scan_paths_fst:
  "fst (scan_paths self ps (acc, w)) = acc @ concat (map (\<lambda>p. fst (scan_file self w p)) ps)"
proof (induction ps arbitrary: acc w)
  case Nil
  then show ?case by simp
next
  case (Cons p ps)
  obtain found err where s: "scan_file self w p = (found, err)"
    by (cases "scan_file self w p")
  show ?case
  proof (cases err)
    case None
    with s Cons show ?thesis by simp
  next
    case (Some e)
    with s Cons[of "acc @ found" "print (icon_error @ '' Error processing file '' @ p @ '': '' @ str_exn e) w"]
    show ?thesis by (simp add: scan_file_files[OF files_print])
  qed
qed




lemma scan_repository_fst:
  "fst (scan_repository self root w) =
     concat (map (\<lambda>p. fst (scan_file self w p)) (candidates (os_walk w root)))"
  by (simp add: scan_repository_def scan_paths_fst)














section \<open>Severity from the rule to the report\<close>

lemma format_issue_severity: "severity (format_issue w path r d) = None"
  by (simp add: format_issue_def Let_def)

text \<open>
  C1. The severity a rule assigns does not reach the formatted issue. On the file
  \<^verbatim>\<open>src/Main.java\<close> of the example tree, \<^verbatim>\<open>UnsafeStartActivityRule\<close> yields one payload
  with severity \<^verbatim>\<open>HIGH\<close>; the issue that \<^verbatim>\<open>scan_repository\<close> returns for it has no
  \<^verbatim>\<open>severity\<close> key (\<^verbatim>\<open>_format_issue\<close> copies every key of the payload but this one), and
  the line \<^verbatim>\<open>report_issues\<close> prints for it carries the marker and the word for an unknown
  severity.
\<close>

theorem format_issue_drops_severity:
  "map p_severity (fst (analyze_file UnsafeStartActivityRule ''src/Main.java'' main_java))
     = [Some ''HIGH'']
   \<and> map severity (fst (scan_repository \<lparr>rules = [UnsafeStartActivityRule]\<rparr> ''src'' scan_world))
     = [None]
   \<and> stdout (report_issues
        (fst (scan_repository \<lparr>rules = [UnsafeStartActivityRule]\<rparr> ''src'' scan_world)) scan_world) ! 4
     = ''  - '' @ icon_unknown
       @ '' [L1] Unsafe startActivity Call Without Exception Handling (UNKNOWN)''"
  by code_simp

section \<open>Line numbers of the findings\<close>




















section \<open>Removing a rule\<close>

text \<open>
  C4, as stated, fails. \<^verbatim>\<open>src/PeertubeLinks.java\<close> of the example tree has a line that
  starts with a parenthesis and contains \<^verbatim>\<open>fun\<close> followed by a space, on which
  \<^verbatim>\<open>StrictFailedRequirementExceptionRule\<close> raises an \<^verbatim>\<open>IndexError\<close>. With the rule list
  of that rule followed by \<^verbatim>\<open>StrictPeertubeChannelIdParsingRule\<close> the scan leaves the file
  at the exception and the PeerTube rule never sees it; with the first rule removed, the
  PeerTube rule reports the file. So removing a rule changed a finding of another rule.
\<close>

theorem raising_rule_hides_later_rules:
  "map rule_name (fst (scan_repository
       \<lparr>rules = [StrictFailedRequirementExceptionRule, StrictPeertubeChannelIdParsingRule]\<rparr>
       ''src'' scan_world))
     = [''StrictPeertubeChannelIdParsingRule'']
   \<and> map file_path (fst (scan_repository
       \<lparr>rules = [StrictFailedRequirementExceptionRule, StrictPeertubeChannelIdParsingRule]\<rparr>
       ''src'' scan_world))
     = [''src/peertube/Empty.java'']
   \<and> map rule_name (fst (scan_repository
       \<lparr>rules = [StrictPeertubeChannelIdParsingRule]\<rparr> ''src'' scan_world))
     = [''StrictPeertubeChannelIdParsingRule'', ''StrictPeertubeChannelIdParsingRule'']
   \<and> map file_path (fst (scan_repository
       \<lparr>rules = [StrictPeertubeChannelIdParsingRule]\<rparr> ''src'' scan_world))
     = [''src/PeertubeLinks.java'', ''src/peertube/Empty.java'']"
  by code_simp

lemma run_rules_remove:
  assumes "snd (analyze_file r p ls) = None"
  shows "filter (\<lambda>i. rule_name i \<noteq> name r) (fst (run_rules w p ls (xs @ r # ys)))
       = filter (\<lambda>i. rule_name i \<noteq> name r) (fst (run_rules w p ls (xs @ ys)))"
proof (induction xs)
  case Nil
  obtain ps where a: "analyze_file r p ls = (ps, None)"
    using assms by (cases "analyze_file r p ls") auto
  have "filter (\<lambda>i. rule_name i \<noteq> name r) (map (format_issue w p r) ps) = []"
    by (simp add: filter_empty_conv format_issue_def Let_def)
  with a show ?case by (simp split: prod.splits)
next
  case (Cons x xs)
  then show ?case by (auto split: prod.splits option.splits)
qed

text \<open>
  C4, amended. If the removed rule raises on none of the files the scan reads, then
  removing it from the rule list, at any position, changes only the findings that carry its
  name: the other findings of the two scans are the same, in the same order.
\<close>

theorem rule_isolation_when_removed_rule_does_not_raise:
  assumes "\<forall>p \<in> set (candidates (os_walk w root)). \<forall>ls. files w p = Inr ls
             \<longrightarrow> snd (analyze_file r p ls) = None"
  shows "filter (\<lambda>i. rule_name i \<noteq> name r) (fst (scan_repository \<lparr>rules = xs @ r # ys\<rparr> root w))
       = filter (\<lambda>i. rule_name i \<noteq> name r) (fst (scan_repository \<lparr>rules = xs @ ys\<rparr> root w))"
proof -
  have "filter (\<lambda>i. rule_name i \<noteq> name r) (fst (scan_file \<lparr>rules = xs @ r # ys\<rparr> w p))
      = filter (\<lambda>i. rule_name i \<noteq> name r) (fst (scan_file \<lparr>rules = xs @ ys\<rparr> w p))"
    if "p \<in> set (candidates (os_walk w root))" for p
    using that assms by (auto simp: scan_file_def run_rules_remove split: sum.splits)
  then show ?thesis
    by (simp add: scan_repository_fst filter_concat comp_def cong: map_cong)
qed

lemma StrictPeertubeChannelIdParsingRule_no_raise:
  "snd (analyze_file StrictPeertubeChannelIdParsingRule p ls) = None"
  by (simp add: StrictPeertubeChannelIdParsingRule_def
      StrictPeertubeChannelIdParsingRule_analyze_file_def Let_def)

theorem rule_isolation_when_removed_rule_does_not_raise_witness:
  "filter (\<lambda>i. rule_name i \<noteq> name StrictPeertubeChannelIdParsingRule)
     (fst (scan_repository
        \<lparr>rules = [UnsafeStartActivityRule, StrictPeertubeChannelIdParsingRule]\<rparr> ''src'' scan_world))
   = filter (\<lambda>i. rule_name i \<noteq> name StrictPeertubeChannelIdParsingRule)
     (fst (scan_repository \<lparr>rules = [UnsafeStartActivityRule]\<rparr> ''src'' scan_world))
   \<and> map file_path (fst (scan_repository \<lparr>rules = [UnsafeStartActivityRule]\<rparr> ''src'' scan_world))
     = [''src/Main.java'']"
proof -
  have e: "map file_path (fst (scan_repository \<lparr>rules = [UnsafeStartActivityRule]\<rparr> ''src'' scan_world))
     = [''src/Main.java'']"
    by code_simp
  from rule_isolation_when_removed_rule_does_not_raise
         [of scan_world "''src''" StrictPeertubeChannelIdParsingRule "[UnsafeStartActivityRule]" "[]"]
  show ?thesis
    by (simp add: StrictPeertubeChannelIdParsingRule_no_raise e)
qed

section \<open>Occurrences without a method boundary\<close>























end
